theory Spec2Isabelle
  imports Main "HOL-Library.Sublist"
begin

section \<open>The syntax tree\<close>

text \<open>
  The transformer works on Python's \<^verbatim>\<open>ast\<close> trees. The node classes that the remote
  transformer inspects or produces are modelled with their fields in the order of the
  \<^verbatim>\<open>ast\<close> grammar. The fields that carry no behaviour here are left out: the expression
  context \<^verbatim>\<open>ctx\<close>, \<^verbatim>\<open>kind\<close>, \<^verbatim>\<open>type_comment\<close>, \<^verbatim>\<open>type_params\<close> and the source positions.
  A name that is an Isabelle keyword or a HOL constant carries a suffix (\<open>If_stmt\<close>,
  \<open>Tuple_expr\<close>, \<open>And_op\<close>) or a prefix (\<open>py_constant\<close>); \<open>fargs\<close> is the field \<^verbatim>\<open>args\<close> of
  a function definition, \<open>args\<close> being a field of \<^verbatim>\<open>ast.arguments\<close> already.
\<close>

datatype py_constant = CNone | CBool bool | CStr string | CInt int

datatype boolop = And_op | Or_op

datatype cmpop = Eq_op | NotEq_op | Is_op | IsNot_op | In_op | NotIn_op

datatype expr =
    Name string
  | Attribute expr string
  | Subscript expr expr
  | Constant py_constant
  | Call expr "expr list" "keyword list"
  | Await expr
  | BoolOp boolop "expr list"
  | Compare expr "cmpop list" "expr list"
  | Tuple_expr "expr list"
  | Starred expr
and keyword = Keyword "string option" expr

datatype arg = Arg string "expr option"

datatype arguments =
  Arguments
    (posonlyargs: "arg list")
    (args: "arg list")
    (vararg: "arg option")
    (kwonlyargs: "arg list")
    (kw_defaults: "expr option list")
    (kwarg: "arg option")
    (defaults: "expr list")

text \<open>
  \<^verbatim>\<open>ast.FunctionDef\<close> and \<^verbatim>\<open>ast.AsyncFunctionDef\<close> are two node classes with the same
  fields; \<open>funcdef\<close> holds those fields.
\<close>

datatype stmt =
    FunctionDef funcdef
  | AsyncFunctionDef funcdef
  | ClassDef string "expr list" "keyword list" "stmt list" "expr list"
  | Return "expr option"
  | Assign "expr list" expr
  | AnnAssign expr expr "expr option" nat
  | Expr expr
  | If_stmt expr "stmt list" "stmt list"
  | While_stmt expr "stmt list" "stmt list"
  | Try "stmt list" "excepthandler list" "stmt list" "stmt list"
  | Raise "expr option" "expr option"
  | Pass
and funcdef =
  FuncDef
    (name: string)
    (fargs: arguments)
    (body: "stmt list")
    (decorator_list: "expr list")
    (returns: "expr option")
and excepthandler = ExceptHandler "expr option" "string option" "stmt list"

section \<open>The transformation policy\<close>

text \<open>
  The three lists the constructor of \<^verbatim>\<open>RemoteFunctionDefTransformer\<close> stores. They are
  Python lists; every use in the class is a membership test.
\<close>

record policy =
  keep_sync :: "string list"
  exclude_methods :: "string list"
  async_methods :: "string list"

text \<open>
  \<^verbatim>\<open>__init__(keep_sync=None, exclude_methods=None, async_methods=None)\<close>: an argument
  that is \<^verbatim>\<open>None\<close> becomes the empty list. The \<^verbatim>\<open>keep_sync\<close> argument is handed to the
  base class, whose code is not among the sources; its default follows the
  specification (\<open>keepSync\<close>, default empty).
\<close>

definition init_policy ::
  "string list option \<Rightarrow> string list option \<Rightarrow> string list option \<Rightarrow> policy" where
  "init_policy ks ex am =
     \<lparr> keep_sync = (case ks of None \<Rightarrow> [] | Some l \<Rightarrow> l),
       exclude_methods = (case ex of None \<Rightarrow> [] | Some l \<Rightarrow> l),
       async_methods = (case am of None \<Rightarrow> [] | Some l \<Rightarrow> l) \<rparr>"

text \<open>
  \<^verbatim>\<open>_keep_sync(self, name)\<close>:
  \<^verbatim>\<open>return name in self.keep_sync or name not in self.async_methods\<close>.
  (An Isabelle name cannot start with an underscore.)
\<close>

definition x_keep_sync :: "policy \<Rightarrow> string \<Rightarrow> bool" where
  "x_keep_sync pol nm = (nm \<in> set (keep_sync pol) \<or> nm \<notin> set (async_methods pol))"

section \<open>The construction override\<close>

text \<open>
  Python's \<^verbatim>\<open>needle in hay\<close> on strings: \<open>needle\<close> occurs in \<open>hay\<close> starting at some
  position.
\<close>

fun str_contains :: "string \<Rightarrow> string \<Rightarrow> bool" where
  "str_contains needle [] = (needle = [])"
| "str_contains needle (c # cs) = (prefix needle (c # cs) \<or> str_contains needle cs)"

text \<open>
  The inner loop of \<^verbatim>\<open>override_init\<close> over the targets of one \<^verbatim>\<open>ast.Assign\<close>: the
  statement is appended to \<^verbatim>\<open>kick_assignments\<close> once for every target that is an
  \<^verbatim>\<open>ast.Attribute\<close> whose \<^verbatim>\<open>attr\<close> contains \<^verbatim>\<open>"aio"\<close>.
\<close>

fun kick_targets :: "stmt \<Rightarrow> expr list \<Rightarrow> stmt list" where
  "kick_targets child [] = []"
| "kick_targets child (Attribute v a # ts) =
     (if str_contains ''aio'' a then [child] else []) @ kick_targets child ts"
| "kick_targets child (t # ts) = kick_targets child ts"

text \<open>
  The outer loop over \<^verbatim>\<open>sync_node.body\<close>. Both \<^verbatim>\<open>if\<close> statements of the loop body are
  tried for every child. \<^verbatim>\<open>hasattr(child_node.target, "attr")\<close> holds exactly for a target
  that is an \<^verbatim>\<open>ast.Attribute\<close>: no other target node class has that field.
\<close>

fun kick_child :: "stmt \<Rightarrow> stmt list" where
  "kick_child (Assign targets v) = kick_targets (Assign targets v) targets"
| "kick_child (AnnAssign (Attribute v a) ann val simple) =
     (if str_contains ''aio'' a then [AnnAssign (Attribute v a) ann val simple] else [])"
| "kick_child child = []"

fun kick_assignments :: "stmt list \<Rightarrow> stmt list" where
  "kick_assignments [] = []"
| "kick_assignments (child # rest) = kick_child child @ kick_assignments rest"

text \<open>
  \<^verbatim>\<open>sync_node.body = [node for node in sync_node.body if node not in kick_assignments]\<close>.
  Python compares \<^verbatim>\<open>ast\<close> nodes by identity; a node is appended to the list because of
  its own fields only, so two nodes with equal fields are both in the list or both
  out of it, and comparing by value selects the same statements.
\<close>

definition override_init_body :: "stmt list \<Rightarrow> stmt list" where
  "override_init_body b = filter (\<lambda>node. node \<notin> set (kick_assignments b)) b"

definition override_init :: "funcdef \<Rightarrow> funcdef" where
  "override_init sync_node =
     FuncDef (name sync_node) (fargs sync_node) (override_init_body (body sync_node))
       (decorator_list sync_node) (returns sync_node)"

section \<open>The shutdown override\<close>

text \<open>
  \<^verbatim>\<open>override_close()\<close> parses a fixed source text and returns the first statement of the
  module. The tree below is that statement: the \<^verbatim>\<open>async def close\<close> of the text.
\<close>

definition grpc_warning :: string where
  "grpc_warning = ''Unable to close grpc_channel. Connection was interrupted on the server side''"

definition http_warning :: string where
  "http_warning = ''Unable to close http connection. Connection was interrupted on the server side''"

definition show_warning_call :: "string \<Rightarrow> stmt" where
  "show_warning_call msg =
     Expr (Call (Name ''show_warning'') []
       [Keyword (Some ''message'') (Constant (CStr msg)),
        Keyword (Some ''category'') (Name ''UserWarning''),
        Keyword (Some ''stacklevel'') (Constant (CInt 5))])"

definition close_args :: arguments where
  "close_args =
     Arguments []
       [Arg ''self'' None,
        Arg ''grpc_grace'' (Some (Subscript (Name ''Optional'') (Name ''float'')))]
       None [] [] (Some (Arg ''kwargs'' (Some (Name ''Any''))))
       [Constant CNone]"

definition close_channel_stmt :: stmt where
  "close_channel_stmt =
     If_stmt
       (BoolOp And_op
         [Call (Name ''hasattr'') [Name ''self'', Constant (CStr ''_grpc_channel'')] [],
          Compare (Attribute (Name ''self'') ''_grpc_channel'') [IsNot_op] [Constant CNone]])
       [Try
         [Expr (Await (Call (Attribute (Attribute (Name ''self'') ''_grpc_channel'') ''close'') []
                  [Keyword (Some ''grace'') (Name ''grpc_grace'')]))]
         [ExceptHandler (Some (Name ''AttributeError'')) None [show_warning_call grpc_warning],
          ExceptHandler (Some (Name ''RuntimeError'')) None [Pass]]
         [] []]
       []"

definition close_http_stmt :: stmt where
  "close_http_stmt =
     Try
       [Expr (Await (Call (Attribute (Attribute (Name ''self'') ''http'') ''aclose'') [] []))]
       [ExceptHandler (Some (Name ''Exception'')) None [show_warning_call http_warning]]
       [] []"

definition set_closed_stmt :: stmt where
  "set_closed_stmt = Assign [Attribute (Name ''self'') ''_closed''] (Constant (CBool True))"

definition close_body :: "stmt list" where
  "close_body = [close_channel_stmt, close_http_stmt, set_closed_stmt]"

definition override_close :: stmt where
  "override_close =
     AsyncFunctionDef (FuncDef ''close'' close_args close_body [] (Some (Constant CNone)))"

section \<open>The base transformer\<close>

text \<open>
  Modelled from the spec: the base class \<^verbatim>\<open>FunctionDefTransformer\<close>
  (\<^verbatim>\<open>tools.async_client_generator.transformers\<close>), whose \<^verbatim>\<open>visit_FunctionDef\<close> the remote
  transformer calls through \<^verbatim>\<open>super()\<close>, is not among the sources. The specification
  (sections 4.1 and 4.4) says: a method that is kept synchronous passes through
  unmodified; a converted method gets its signature rewritten to the suspending form
  and every call expression in its body whose target name is in \<open>asyncMethods\<close> is
  rewritten into a suspending call at that call site, everything else staying as it
  is; applied to a method whose signature is already in suspending form the rewrite is
  a no-op.
\<close>

fun call_target :: "expr \<Rightarrow> string option" where
  "call_target (Name n) = Some n"
| "call_target (Attribute v a) = Some a"
| "call_target e = None"

definition is_async_call :: "string list \<Rightarrow> expr \<Rightarrow> bool" where
  "is_async_call am f = (case call_target f of None \<Rightarrow> False | Some n \<Rightarrow> n \<in> set am)"

fun await_expr :: "string list \<Rightarrow> expr \<Rightarrow> expr"
  and await_keyword :: "string list \<Rightarrow> keyword \<Rightarrow> keyword" where
  "await_expr am (Name n) = Name n"
| "await_expr am (Attribute v a) = Attribute (await_expr am v) a"
| "await_expr am (Subscript v i) = Subscript (await_expr am v) (await_expr am i)"
| "await_expr am (Constant c) = Constant c"
| "await_expr am (Call f as ks) =
     (if is_async_call am f
      then Await (Call (await_expr am f) (map (await_expr am) as) (map (await_keyword am) ks))
      else Call (await_expr am f) (map (await_expr am) as) (map (await_keyword am) ks))"
| "await_expr am (Await e) = Await (await_expr am e)"
| "await_expr am (BoolOp op es) = BoolOp op (map (await_expr am) es)"
| "await_expr am (Compare l ops rs) = Compare (await_expr am l) ops (map (await_expr am) rs)"
| "await_expr am (Tuple_expr es) = Tuple_expr (map (await_expr am) es)"
| "await_expr am (Starred e) = Starred (await_expr am e)"
| "await_keyword am (Keyword k v) = Keyword k (await_expr am v)"

fun await_stmt :: "string list \<Rightarrow> stmt \<Rightarrow> stmt"
  and await_funcdef :: "string list \<Rightarrow> funcdef \<Rightarrow> funcdef"
  and await_handler :: "string list \<Rightarrow> excepthandler \<Rightarrow> excepthandler" where
  "await_stmt am (FunctionDef f) = FunctionDef (await_funcdef am f)"
| "await_stmt am (AsyncFunctionDef f) = AsyncFunctionDef (await_funcdef am f)"
| "await_stmt am (ClassDef n bases ks b d) =
     ClassDef n (map (await_expr am) bases) (map (await_keyword am) ks)
       (map (await_stmt am) b) (map (await_expr am) d)"
| "await_stmt am (Return v) = Return (map_option (await_expr am) v)"
| "await_stmt am (Assign ts v) = Assign (map (await_expr am) ts) (await_expr am v)"
| "await_stmt am (AnnAssign t ann v simple) =
     AnnAssign (await_expr am t) ann (map_option (await_expr am) v) simple"
| "await_stmt am (Expr e) = Expr (await_expr am e)"
| "await_stmt am (If_stmt c b orelse) =
     If_stmt (await_expr am c) (map (await_stmt am) b) (map (await_stmt am) orelse)"
| "await_stmt am (While_stmt c b orelse) =
     While_stmt (await_expr am c) (map (await_stmt am) b) (map (await_stmt am) orelse)"
| "await_stmt am (Try b hs orelse finalbody) =
     Try (map (await_stmt am) b) (map (await_handler am) hs)
       (map (await_stmt am) orelse) (map (await_stmt am) finalbody)"
| "await_stmt am (Raise e c) =
     Raise (map_option (await_expr am) e) (map_option (await_expr am) c)"
| "await_stmt am Pass = Pass"
| "await_funcdef am (FuncDef n a b d r) = FuncDef n a (map (await_stmt am) b) d r"
| "await_handler am (ExceptHandler t n b) = ExceptHandler t n (map (await_stmt am) b)"

fun generic_conversion :: "policy \<Rightarrow> stmt \<Rightarrow> stmt" where
  "generic_conversion pol (FunctionDef f) =
     AsyncFunctionDef
       (FuncDef (name f) (fargs f) (map (await_stmt (async_methods pol)) (body f))
          (decorator_list f) (returns f))"
| "generic_conversion pol s = s"

definition base_visit_FunctionDef :: "policy \<Rightarrow> funcdef \<Rightarrow> stmt option" where
  "base_visit_FunctionDef pol sync_node =
     (if x_keep_sync pol (name sync_node) then Some (FunctionDef sync_node)
      else Some (generic_conversion pol (FunctionDef sync_node)))"

section \<open>The remote transformer\<close>

text \<open>
  \<^verbatim>\<open>RemoteFunctionDefTransformer\<close> is an \<^verbatim>\<open>ast.NodeTransformer\<close>. \<open>visit\<close> is the dispatch
  of the standard library: a node of class \<^verbatim>\<open>FunctionDef\<close> goes to \<^verbatim>\<open>visit_FunctionDef\<close>,
  the only visitor method of the class, and every other node to \<^verbatim>\<open>generic_visit\<close>.
  \<open>generic_visit\<close> visits the child nodes of a node, field by field; in a list field a
  child whose visit returns \<^verbatim>\<open>None\<close> is left out and every other child is replaced by
  the node its visit returns (\<open>visit_list\<close>, and \<open>visit_handlers\<close> for the handlers of
  a \<^verbatim>\<open>try\<close>). No visitor is defined for expressions and no expression holds a statement,
  so the visit of an expression field returns it as it is.

  \<^verbatim>\<open>visit_FunctionDef\<close> follows the source: the exclusion test, the constructor
  (\<^verbatim>\<open>self.generic_visit(self.override_init(sync_node))\<close>), the shutdown method
  (\<^verbatim>\<open>self.override_close()\<close>), and the base class for every other name. \<^verbatim>\<open>None\<close> as the
  result of a visit is \<open>None\<close> here.
\<close>

function (sequential) visit :: "policy \<Rightarrow> stmt \<Rightarrow> stmt option"
  and generic_visit :: "policy \<Rightarrow> stmt \<Rightarrow> stmt"
  and visit_list :: "policy \<Rightarrow> stmt list \<Rightarrow> stmt list"
  and visit_handlers :: "policy \<Rightarrow> excepthandler list \<Rightarrow> excepthandler list"
  and visit_FunctionDef :: "policy \<Rightarrow> funcdef \<Rightarrow> stmt option" where
  "visit pol (FunctionDef f) = visit_FunctionDef pol f"
| "visit pol node = Some (generic_visit pol node)"
| "generic_visit pol (FunctionDef f) =
     FunctionDef
       (FuncDef (name f) (fargs f) (visit_list pol (body f)) (decorator_list f) (returns f))"
| "generic_visit pol (AsyncFunctionDef f) =
     AsyncFunctionDef
       (FuncDef (name f) (fargs f) (visit_list pol (body f)) (decorator_list f) (returns f))"
| "generic_visit pol (ClassDef n bases ks b d) = ClassDef n bases ks (visit_list pol b) d"
| "generic_visit pol (If_stmt c b orelse) =
     If_stmt c (visit_list pol b) (visit_list pol orelse)"
| "generic_visit pol (While_stmt c b orelse) =
     While_stmt c (visit_list pol b) (visit_list pol orelse)"
| "generic_visit pol (Try b hs orelse finalbody) =
     Try (visit_list pol b) (visit_handlers pol hs)
       (visit_list pol orelse) (visit_list pol finalbody)"
| "generic_visit pol node = node"
| "visit_list pol [] = []"
| "visit_list pol (v # vs) =
     (case visit pol v of
        None \<Rightarrow> visit_list pol vs
      | Some v' \<Rightarrow> v' # visit_list pol vs)"
| "visit_handlers pol [] = []"
| "visit_handlers pol (ExceptHandler t n b # hs) =
     ExceptHandler t n (visit_list pol b) # visit_handlers pol hs"
| "visit_FunctionDef pol sync_node =
     (if name sync_node \<in> set (exclude_methods pol) then None
      else if name sync_node = ''__init__''
        then Some (generic_visit pol (FunctionDef (override_init sync_node)))
      else if name sync_node = ''close'' then Some override_close
      else base_visit_FunctionDef pol sync_node)"
  by pat_completeness auto
termination
proof -
  have filter_le: "size_list g (filter P xs) \<le> size_list g xs"
    for g :: "stmt \<Rightarrow> nat" and P xs
    by (induction xs) auto
  have body_less: "size_list size (body f) < Suc (size f)" for f
    by (cases f) simp
  have init_le: "size (override_init f) \<le> size f" for f
    by (cases f) (simp add: override_init_def override_init_body_def filter_le)
  have init_less: "size (override_init f) < size f"
    if "size (override_init f) \<noteq> size f" for f
    using init_le [of f] that by simp
  show ?thesis
    by (relation "measures [
         (\<lambda>x. case x of
            Inl (Inl (pol, s)) \<Rightarrow> size s
          | Inl (Inr (pol, s)) \<Rightarrow> size s
          | Inr (Inl (pol, ss)) \<Rightarrow> size_list size ss
          | Inr (Inr (Inl (pol, hs))) \<Rightarrow> size_list size hs
          | Inr (Inr (Inr (pol, f))) \<Rightarrow> Suc (size f)),
         (\<lambda>x. case x of
            Inl (Inl (pol, s)) \<Rightarrow> 2
          | Inl (Inr (pol, s)) \<Rightarrow> 0
          | Inr (Inl (pol, ss)) \<Rightarrow> 0
          | Inr (Inr (Inl (pol, hs))) \<Rightarrow> 0
          | Inr (Inr (Inr (pol, f))) \<Rightarrow> 1)]")
      (auto simp: body_less init_less)
qed

section \<open>Running the generated shutdown method\<close>

text \<open>
  What the generated \<^verbatim>\<open>close\<close> does when it runs is read off its tree by an evaluator
  for the statement and expression forms that occur in it; any other form gives
  \<open>Unsupported\<close>.

  An exception is the list of the names of its classes (the class it was raised with and
  all its base classes): \<^verbatim>\<open>except C\<close> catches an exception exactly when \<^verbatim>\<open>C\<close> is one of
  them.
\<close>

type_synonym exc = "string list"

definition attribute_error :: exc where
  "attribute_error = [''AttributeError'', ''Exception'', ''BaseException'']"

definition name_error :: exc where
  "name_error = [''NameError'', ''Exception'', ''BaseException'']"

text \<open>
  Values: the client object itself, handles of the resources the client owns (the gRPC
  channel, the HTTP client), their bound methods, the coroutine that a call of such a
  method returns (with the exception it raises when awaited, if any), global functions
  and classes, and plain data.
\<close>

datatype pyval =
    VNone
  | VBool bool
  | VInt int
  | VStr string
  | VSelf
  | VRes string
  | VMeth string string
  | VCoro "exc option"
  | VFun string
  | VCls string
  | VOpaque string

text \<open>
  The state a run changes: the instance attributes of the client, the warnings shown so
  far, and the resource methods called so far (resource, method), both oldest first.
\<close>

record pystate =
  attrs :: "string \<rightharpoonup> pyval"
  warnings :: "string list"
  invoked :: "(string \<times> string) list"

text \<open>
  What a run does not change: the local variables of the call; for every resource
  method whether awaiting its call raises (\<open>Some\<close> the exception) or returns; and for
  every message whether \<^verbatim>\<open>show_warning\<close> raises on it or returns. \<^verbatim>\<open>show_warning\<close>
  (\<^verbatim>\<open>qdrant_client.common.client_warnings\<close>) is not among the sources; it hands the
  message to \<^verbatim>\<open>warnings.warn\<close>, which shows the warning and returns, or raises it as an
  exception when a warnings filter turns warnings into errors. Which of the two happens
  is a parameter of the run.
\<close>

record env =
  locals :: "string \<rightharpoonup> pyval"
  awaited :: "string \<Rightarrow> string \<Rightarrow> exc option"
  shown :: "string \<Rightarrow> exc option"

datatype 'a res = Ok 'a pystate | Raised exc pystate | Unsupported

fun const_val :: "py_constant \<Rightarrow> pyval" where
  "const_val CNone = VNone"
| "const_val (CBool b) = VBool b"
| "const_val (CInt i) = VInt i"
| "const_val (CStr s) = VStr s"

fun truthy :: "pyval \<Rightarrow> bool" where
  "truthy VNone = False"
| "truthy (VBool b) = b"
| "truthy (VInt i) = (i \<noteq> 0)"
| "truthy (VStr s) = (s \<noteq> [])"
| "truthy v = True"

text \<open>
  A name is a local variable or one of the global names the generated method uses:
  the functions \<^verbatim>\<open>hasattr\<close> and \<^verbatim>\<open>show_warning\<close> and the classes it names.
\<close>

definition lookup_name :: "env \<Rightarrow> string \<Rightarrow> pyval option" where
  "lookup_name e n =
     (case locals e n of
        Some v \<Rightarrow> Some v
      | None \<Rightarrow>
          if n \<in> set [''hasattr'', ''show_warning''] then Some (VFun n)
          else if n \<in> set [''UserWarning'', ''AttributeError'', ''RuntimeError'', ''Exception'']
            then Some (VCls n)
          else None)"

text \<open>
  Attribute access: an instance attribute of the client (\<^verbatim>\<open>AttributeError\<close> when it has
  none of that name), a bound method of a resource, and \<^verbatim>\<open>AttributeError\<close> on every other
  value.
\<close>

fun get_attr :: "pyval \<Rightarrow> string \<Rightarrow> pystate \<Rightarrow> pyval res" where
  "get_attr VSelf a st =
     (case attrs st a of Some w \<Rightarrow> Ok w st | None \<Rightarrow> Raised attribute_error st)"
| "get_attr (VRes r) a st = Ok (VMeth r a) st"
| "get_attr v a st = Raised attribute_error st"

text \<open>
  Calls: \<^verbatim>\<open>hasattr(self, name)\<close>; \<^verbatim>\<open>show_warning(message=...)\<close>, which records the
  message and returns, or raises and records nothing; and a resource method, whose
  call is recorded and returns the coroutine to await.
\<close>

fun apply_call :: "env \<Rightarrow> pyval \<Rightarrow> pyval list \<Rightarrow> (string option \<times> pyval) list \<Rightarrow> pystate \<Rightarrow> pyval res"
  where
  "apply_call e (VFun n) avs kvs st =
     (if n = ''hasattr'' then
        (case (avs, kvs) of
           ([VSelf, VStr a], []) \<Rightarrow> Ok (VBool (attrs st a \<noteq> None)) st
         | _ \<Rightarrow> Unsupported)
      else if n = ''show_warning'' then
        (case (avs, map_of kvs (Some ''message'')) of
           ([], Some (VStr m)) \<Rightarrow>
             (case shown e m of
                None \<Rightarrow> Ok VNone (st\<lparr>warnings := warnings st @ [m]\<rparr>)
              | Some ex \<Rightarrow> Raised ex st)
         | _ \<Rightarrow> Unsupported)
      else Unsupported)"
| "apply_call e (VMeth r m) avs kvs st =
     Ok (VCoro (awaited e r m)) (st\<lparr>invoked := invoked st @ [(r, m)]\<rparr>)"
| "apply_call e v avs kvs st = Unsupported"

fun eval :: "env \<Rightarrow> pystate \<Rightarrow> expr \<Rightarrow> pyval res"
  and eval_list :: "env \<Rightarrow> pystate \<Rightarrow> expr list \<Rightarrow> pyval list res"
  and eval_keywords :: "env \<Rightarrow> pystate \<Rightarrow> keyword list \<Rightarrow> (string option \<times> pyval) list res"
  and eval_and :: "env \<Rightarrow> pystate \<Rightarrow> expr list \<Rightarrow> pyval res" where
  "eval e st (Name n) =
     (case lookup_name e n of Some v \<Rightarrow> Ok v st | None \<Rightarrow> Raised name_error st)"
| "eval e st (Constant c) = Ok (const_val c) st"
| "eval e st (Attribute x a) =
     (case eval e st x of
        Ok v st1 \<Rightarrow> get_attr v a st1
      | Raised ex st1 \<Rightarrow> Raised ex st1
      | Unsupported \<Rightarrow> Unsupported)"
| "eval e st (Call f as ks) =
     (case eval e st f of
        Ok fv st1 \<Rightarrow>
          (case eval_list e st1 as of
             Ok avs st2 \<Rightarrow>
               (case eval_keywords e st2 ks of
                  Ok kvs st3 \<Rightarrow> apply_call e fv avs kvs st3
                | Raised ex st3 \<Rightarrow> Raised ex st3
                | Unsupported \<Rightarrow> Unsupported)
           | Raised ex st2 \<Rightarrow> Raised ex st2
           | Unsupported \<Rightarrow> Unsupported)
      | Raised ex st1 \<Rightarrow> Raised ex st1
      | Unsupported \<Rightarrow> Unsupported)"
| "eval e st (Await x) =
     (case eval e st x of
        Ok (VCoro None) st1 \<Rightarrow> Ok VNone st1
      | Ok (VCoro (Some ex)) st1 \<Rightarrow> Raised ex st1
      | Ok v st1 \<Rightarrow> Unsupported
      | Raised ex st1 \<Rightarrow> Raised ex st1
      | Unsupported \<Rightarrow> Unsupported)"
| "eval e st (BoolOp And_op xs) = eval_and e st xs"
| "eval e st (Compare l [IsNot_op] [Constant CNone]) =
     (case eval e st l of
        Ok v st1 \<Rightarrow> Ok (VBool (v \<noteq> VNone)) st1
      | Raised ex st1 \<Rightarrow> Raised ex st1
      | Unsupported \<Rightarrow> Unsupported)"
| "eval e st x = Unsupported"
| "eval_list e st [] = Ok [] st"
| "eval_list e st (x # xs) =
     (case eval e st x of
        Ok v st1 \<Rightarrow>
          (case eval_list e st1 xs of
             Ok vs st2 \<Rightarrow> Ok (v # vs) st2
           | Raised ex st2 \<Rightarrow> Raised ex st2
           | Unsupported \<Rightarrow> Unsupported)
      | Raised ex st1 \<Rightarrow> Raised ex st1
      | Unsupported \<Rightarrow> Unsupported)"
| "eval_keywords e st [] = Ok [] st"
| "eval_keywords e st (Keyword k x # ks) =
     (case eval e st x of
        Ok v st1 \<Rightarrow>
          (case eval_keywords e st1 ks of
             Ok vs st2 \<Rightarrow> Ok ((k, v) # vs) st2
           | Raised ex st2 \<Rightarrow> Raised ex st2
           | Unsupported \<Rightarrow> Unsupported)
      | Raised ex st1 \<Rightarrow> Raised ex st1
      | Unsupported \<Rightarrow> Unsupported)"
| "eval_and e st [] = Unsupported"
| "eval_and e st [x] = eval e st x"
| "eval_and e st (x # xs) =
     (case eval e st x of
        Ok v st1 \<Rightarrow> if truthy v then eval_and e st1 xs else Ok v st1
      | Raised ex st1 \<Rightarrow> Raised ex st1
      | Unsupported \<Rightarrow> Unsupported)"

text \<open>
  Statements. A \<^verbatim>\<open>try\<close> runs its body; an exception raised there goes to the first
  handler whose class is among the exception's classes, and is raised again when
  there is none.
\<close>

fun exec :: "env \<Rightarrow> pystate \<Rightarrow> stmt \<Rightarrow> unit res"
  and exec_block :: "env \<Rightarrow> pystate \<Rightarrow> stmt list \<Rightarrow> unit res"
  and exec_handlers :: "env \<Rightarrow> exc \<Rightarrow> pystate \<Rightarrow> excepthandler list \<Rightarrow> unit res" where
  "exec e st (Expr x) =
     (case eval e st x of
        Ok v st1 \<Rightarrow> Ok () st1
      | Raised ex st1 \<Rightarrow> Raised ex st1
      | Unsupported \<Rightarrow> Unsupported)"
| "exec e st (Assign [Attribute (Name n) a] x) =
     (case eval e st x of
        Ok v st1 \<Rightarrow>
          (case eval e st1 (Name n) of
             Ok VSelf st2 \<Rightarrow> Ok () (st2\<lparr>attrs := (attrs st2)(a \<mapsto> v)\<rparr>)
           | Ok w st2 \<Rightarrow> Unsupported
           | Raised ex st2 \<Rightarrow> Raised ex st2
           | Unsupported \<Rightarrow> Unsupported)
      | Raised ex st1 \<Rightarrow> Raised ex st1
      | Unsupported \<Rightarrow> Unsupported)"
| "exec e st Pass = Ok () st"
| "exec e st (If_stmt c b orelse) =
     (case eval e st c of
        Ok v st1 \<Rightarrow> if truthy v then exec_block e st1 b else exec_block e st1 orelse
      | Raised ex st1 \<Rightarrow> Raised ex st1
      | Unsupported \<Rightarrow> Unsupported)"
| "exec e st (Try b hs [] []) =
     (case exec_block e st b of
        Ok u st1 \<Rightarrow> Ok u st1
      | Raised ex st1 \<Rightarrow> exec_handlers e ex st1 hs
      | Unsupported \<Rightarrow> Unsupported)"
| "exec e st s = Unsupported"
| "exec_block e st [] = Ok () st"
| "exec_block e st (s # ss) =
     (case exec e st s of
        Ok u st1 \<Rightarrow> exec_block e st1 ss
      | Raised ex st1 \<Rightarrow> Raised ex st1
      | Unsupported \<Rightarrow> Unsupported)"
| "exec_handlers e ex st [] = Raised ex st"
| "exec_handlers e ex st (ExceptHandler (Some t) None hb # hs) =
     (case eval e st t of
        Ok (VCls c) st1 \<Rightarrow>
          if c \<in> set ex then exec_block e st1 hb else exec_handlers e ex st1 hs
      | Ok v st1 \<Rightarrow> Unsupported
      | Raised ey st1 \<Rightarrow> Raised ey st1
      | Unsupported \<Rightarrow> Unsupported)"
| "exec_handlers e ex st hs = Unsupported"

text \<open>
  A call \<^verbatim>\<open>await client.close(grpc_grace=g)\<close> of the generated method: the parameters of
  its signature are bound and its body runs.
\<close>

definition close_env ::
  "(string \<Rightarrow> string \<Rightarrow> exc option) \<Rightarrow> (string \<Rightarrow> exc option) \<Rightarrow> pyval \<Rightarrow> env" where
  "close_env aw sh g =
     \<lparr> locals = [''self'' \<mapsto> VSelf, ''grpc_grace'' \<mapsto> g, ''kwargs'' \<mapsto> VOpaque ''kwargs''],
       awaited = aw,
       shown = sh \<rparr>"

definition run_close ::
  "(string \<Rightarrow> string \<Rightarrow> exc option) \<Rightarrow> (string \<Rightarrow> exc option) \<Rightarrow> pyval \<Rightarrow> pystate \<Rightarrow> unit res"
  where
  "run_close aw sh g st =
     (case override_close of
        AsyncFunctionDef f \<Rightarrow> exec_block (close_env aw sh g) st (body f)
      | _ \<Rightarrow> Unsupported)"

section \<open>The vocabulary of the specification\<close>

text \<open>
  The definitions of this section follow the words of the specification, not the source;
  the theorems below compare them with the functions above.

  Section 4.2: a statement whose assignment target is an attribute reference whose
  attribute name carries the marker of the non-blocking transport. A plain assignment
  can have several targets.
\<close>

fun marked_attr :: "expr \<Rightarrow> bool" where
  "marked_attr (Attribute v a) = str_contains ''aio'' a"
| "marked_attr t = False"

fun marked_assignment :: "stmt \<Rightarrow> bool" where
  "marked_assignment (Assign targets v) = list_ex marked_attr targets"
| "marked_assignment (AnnAssign t ann v simple) = marked_attr t"
| "marked_assignment s = False"

fun is_Attribute :: "expr \<Rightarrow> bool" where
  "is_Attribute (Attribute v a) = True"
| "is_Attribute t = False"

text \<open>
  Section 4.1: the five classifications, in the precedence order of the classifier, and
  the rule that each of them names.
\<close>

datatype classification =
  Excluded | ConstructionOverride | ShutdownOverride | KeptSync | Converted

definition classify :: "policy \<Rightarrow> string \<Rightarrow> classification" where
  "classify pol m =
     (if m \<in> set (exclude_methods pol) then Excluded
      else if m = ''__init__'' then ConstructionOverride
      else if m = ''close'' then ShutdownOverride
      else if m \<in> set (keep_sync pol) \<or> m \<notin> set (async_methods pol) then KeptSync
      else Converted)"

fun apply_rule :: "policy \<Rightarrow> classification \<Rightarrow> funcdef \<Rightarrow> stmt option" where
  "apply_rule pol Excluded f = None"
| "apply_rule pol ConstructionOverride f =
     Some (generic_visit pol (FunctionDef (override_init f)))"
| "apply_rule pol ShutdownOverride f = Some override_close"
| "apply_rule pol KeptSync f = Some (FunctionDef f)"
| "apply_rule pol Converted f = Some (generic_conversion pol (FunctionDef f))"

text \<open>The name of a member of a class body that is a method definition.\<close>

fun method_name :: "stmt \<Rightarrow> string option" where
  "method_name (FunctionDef f) = Some (name f)"
| "method_name (AsyncFunctionDef f) = Some (name f)"
| "method_name s = None"

fun is_AsyncFunctionDef :: "stmt \<Rightarrow> bool" where
  "is_AsyncFunctionDef (AsyncFunctionDef f) = True"
| "is_AsyncFunctionDef s = False"

text \<open>
  Section 4.3, the three steps of the shutdown contract as changes of the state, each
  for the case that its warning is shown and nothing escapes: the channel step (a
  channel that is present and not \<^verbatim>\<open>None\<close> is closed; an error of kind \<^verbatim>\<open>AttributeError\<close>
  gives the warning, any other caught error gives nothing), the HTTP step (the close is
  attempted; any caught error, also a missing client, gives the warning), and the
  closed flag.
\<close>

definition warn :: "string \<Rightarrow> pystate \<Rightarrow> pystate" where
  "warn msg st = st\<lparr>warnings := warnings st @ [msg]\<rparr>"

definition attempt :: "string \<Rightarrow> string \<Rightarrow> pystate \<Rightarrow> pystate" where
  "attempt r m st = st\<lparr>invoked := invoked st @ [(r, m)]\<rparr>"

definition channel_step :: "(string \<Rightarrow> string \<Rightarrow> exc option) \<Rightarrow> pystate \<Rightarrow> pystate" where
  "channel_step aw st =
     (case attrs st ''_grpc_channel'' of
        Some (VRes c) \<Rightarrow>
          (case aw c ''close'' of
             None \<Rightarrow> attempt c ''close'' st
           | Some ex \<Rightarrow>
               if ''AttributeError'' \<in> set ex
               then warn grpc_warning (attempt c ''close'' st)
               else attempt c ''close'' st)
      | _ \<Rightarrow> st)"

definition http_step :: "(string \<Rightarrow> string \<Rightarrow> exc option) \<Rightarrow> pystate \<Rightarrow> pystate" where
  "http_step aw st =
     (case attrs st ''http'' of
        Some (VRes h) \<Rightarrow>
          (case aw h ''aclose'' of
             None \<Rightarrow> attempt h ''aclose'' st
           | Some ex \<Rightarrow> warn http_warning (attempt h ''aclose'' st))
      | _ \<Rightarrow> warn http_warning st)"

definition closed_step :: "pystate \<Rightarrow> pystate" where
  "closed_step st = st\<lparr>attrs := (attrs st)(''_closed'' \<mapsto> VBool True)\<rparr>"

text \<open>
  The client field of a resource holds a resource handle or \<^verbatim>\<open>None\<close>, or is not set.
  An awaited close is caught by a list of handler classes when it returns, or raises an
  exception one of whose classes is in the list.
\<close>

fun resource_field :: "pyval option \<Rightarrow> bool" where
  "resource_field None = True"
| "resource_field (Some VNone) = True"
| "resource_field (Some (VRes r)) = True"
| "resource_field (Some v) = False"

fun caught_by :: "string list \<Rightarrow> exc option \<Rightarrow> bool" where
  "caught_by cs None = True"
| "caught_by cs (Some ex) = list_ex (\<lambda>c. c \<in> set ex) cs"

section \<open>Facts about the model\<close>

lemma str_contains_iff: "str_contains needle hay \<longleftrightarrow> sublist needle hay"
  by (induction hay) (auto simp: sublist_Cons_right)

lemma set_kick_targets:
  "set (kick_targets child ts) = (if list_ex marked_attr ts then {child} else {})"
  by (induction child ts rule: kick_targets.induct) auto

lemma set_kick_child:
  "set (kick_child s) = (if marked_assignment s then {s} else {})"
  by (induction s rule: kick_child.induct) (auto simp: set_kick_targets)

lemma set_kick_assignments:
  "set (kick_assignments b) = {s \<in> set b. marked_assignment s}"
  by (induction b) (auto simp: set_kick_child)

lemma override_init_body_filter:
  "override_init_body b = filter (\<lambda>s. \<not> marked_assignment s) b"
  unfolding override_init_body_def set_kick_assignments
  by (rule filter_cong) auto

lemma override_init_body_append:
  "override_init_body (xs @ ys) = override_init_body xs @ override_init_body ys"
  by (simp add: override_init_body_filter)

lemma visit_FunctionDef_classify:
  "visit_FunctionDef pol f = apply_rule pol (classify pol (name f)) f"
  by (simp add: classify_def base_visit_FunctionDef_def x_keep_sync_def)

lemma visit_list_map_filter: "visit_list pol b = List.map_filter (visit pol) b"
  by (induction b) (auto simp: List.map_filter_simps split: option.splits)

lemma visit_list_append: "visit_list pol (xs @ ys) = visit_list pol xs @ visit_list pol ys"
  by (induction xs) (auto split: option.splits)

lemma marked_not_Attribute: "\<not> list_ex is_Attribute ts \<Longrightarrow> \<not> list_ex marked_attr ts"
proof (induction ts)
  case Nil
  then show ?case by simp
next
  case (Cons t ts)
  then show ?case by (cases t) auto
qed

lemma method_name_visit_FunctionDef:
  "map_option method_name (visit_FunctionDef pol f) =
     (if name f \<in> set (exclude_methods pol) then None else Some (Some (name f)))"
  by (simp add: base_visit_FunctionDef_def override_close_def override_init_def)

lemma method_name_generic_visit: "method_name (generic_visit pol s) = method_name s"
  by (cases s) auto

declare visit_FunctionDef.simps [simp del]

lemma method_name_visit:
  "\<not> is_AsyncFunctionDef s \<Longrightarrow>
     map_option method_name (visit pol s) =
       (case method_name s of
          None \<Rightarrow> Some None
        | Some n \<Rightarrow> if n \<in> set (exclude_methods pol) then None else Some (Some n))"
  by (cases s) (simp_all add: method_name_visit_FunctionDef)

lemma method_names_visit_list:
  "list_all (\<lambda>s. \<not> is_AsyncFunctionDef s) b \<Longrightarrow>
     List.map_filter method_name (visit_list pol b)
       = filter (\<lambda>n. n \<notin> set (exclude_methods pol)) (List.map_filter method_name b)"
proof (induction b)
  case Nil
  then show ?case by (simp add: List.map_filter_simps)
next
  case (Cons s b)
  then have ih: "List.map_filter method_name (visit_list pol b)
       = filter (\<lambda>n. n \<notin> set (exclude_methods pol)) (List.map_filter method_name b)"
    and ns: "\<not> is_AsyncFunctionDef s"
    by simp_all
  show ?case
    using method_name_visit [OF ns, of pol] ih
    by (cases "visit pol s"; cases "method_name s")
       (auto simp: List.map_filter_simps split: if_splits)
qed

lemmas close_ast_defs =
  close_channel_stmt_def close_http_stmt_def set_closed_stmt_def show_warning_call_def
  close_env_def lookup_name_def attribute_error_def

lemma exec_close_channel:
  assumes "resource_field (attrs st ''_grpc_channel'')"
    and "\<forall>r. caught_by [''AttributeError'', ''RuntimeError''] (aw r ''close'')"
    and "sh grpc_warning = None"
  shows "exec (close_env aw sh g) st close_channel_stmt = Ok () (channel_step aw st)"
proof (cases "attrs st ''_grpc_channel''")
  case None
  then show ?thesis by (simp add: close_ast_defs channel_step_def)
next
  case (Some v)
  show ?thesis
  proof (cases v)
    case VNone
    with Some show ?thesis by (simp add: close_ast_defs channel_step_def)
  next
    case (VRes c)
    show ?thesis
    proof (cases "aw c ''close''")
      case None
      with Some VRes show ?thesis
        by (simp add: close_ast_defs channel_step_def attempt_def)
    next
      case (Some ex)
      from assms(2) have "caught_by [''AttributeError'', ''RuntimeError''] (aw c ''close'')"
        by blast
      with Some have "''AttributeError'' \<in> set ex \<or> ''RuntimeError'' \<in> set ex"
        by simp
      with Some \<open>attrs st ''_grpc_channel'' = Some v\<close> VRes assms(3) show ?thesis
        by (auto simp: close_ast_defs channel_step_def attempt_def warn_def)
    qed
  qed (use assms(1) Some in simp_all)
qed

lemma exec_close_channel_escape:
  assumes "attrs st ''_grpc_channel'' = Some (VRes c)"
    and "aw c ''close'' = Some ex"
    and "''AttributeError'' \<notin> set ex" and "''RuntimeError'' \<notin> set ex"
  shows "exec (close_env aw sh g) st close_channel_stmt = Raised ex (attempt c ''close'' st)"
  using assms by (simp add: close_ast_defs attempt_def)

lemma exec_close_http:
  assumes "resource_field (attrs st ''http'')"
    and "\<forall>r. caught_by [''Exception''] (aw r ''aclose'')"
    and "sh http_warning = None"
  shows "exec (close_env aw sh g) st close_http_stmt = Ok () (http_step aw st)"
proof (cases "attrs st ''http''")
  case None
  with assms(3) show ?thesis by (simp add: close_ast_defs http_step_def warn_def)
next
  case (Some v)
  show ?thesis
  proof (cases v)
    case VNone
    with Some assms(3) show ?thesis by (simp add: close_ast_defs http_step_def warn_def)
  next
    case (VRes h)
    show ?thesis
    proof (cases "aw h ''aclose''")
      case None
      with Some VRes show ?thesis
        by (simp add: close_ast_defs http_step_def attempt_def)
    next
      case (Some ex)
      from assms(2) have "caught_by [''Exception''] (aw h ''aclose'')"
        by blast
      with Some have "''Exception'' \<in> set ex"
        by simp
      with Some \<open>attrs st ''http'' = Some v\<close> VRes assms(3) show ?thesis
        by (simp add: close_ast_defs http_step_def attempt_def warn_def)
    qed
  qed (use assms(1) Some in simp_all)
qed

lemma exec_set_closed:
  "exec (close_env aw sh g) st set_closed_stmt = Ok () (closed_step st)"
  by (simp add: close_ast_defs closed_step_def)

lemma attrs_channel_step: "attrs (channel_step aw st) = attrs st"
  by (simp add: channel_step_def attempt_def warn_def split: option.splits pyval.splits)

section \<open>Properties of the transformer\<close>

text \<open>
  C1. A method whose name is not excluded and is neither \<^verbatim>\<open>__init__\<close> nor \<^verbatim>\<open>close\<close> is
  kept synchronous (the visit returns it unmodified) exactly when its name is in
  \<^verbatim>\<open>keep_sync\<close> or not in \<^verbatim>\<open>async_methods\<close>, and is converted exactly when its name is in
  \<^verbatim>\<open>async_methods\<close> and not in \<^verbatim>\<open>keep_sync\<close>; a name in both lists is kept synchronous.
\<close>

theorem keep_sync_wins:
  "m \<notin> set (exclude_methods pol) \<and> m \<noteq> ''__init__'' \<and> m \<noteq> ''close'' \<and> name f = m \<longrightarrow>
     x_keep_sync pol m = (m \<in> set (keep_sync pol) \<or> m \<notin> set (async_methods pol))
   \<and> (visit_FunctionDef pol f = Some (FunctionDef f))
       = (m \<in> set (keep_sync pol) \<or> m \<notin> set (async_methods pol))
   \<and> (visit_FunctionDef pol f = Some (generic_conversion pol (FunctionDef f)))
       = (m \<in> set (async_methods pol) \<and> m \<notin> set (keep_sync pol))
   \<and> (classify pol m = KeptSync)
       = (m \<in> set (keep_sync pol) \<or> m \<notin> set (async_methods pol))
   \<and> (m \<in> set (keep_sync pol) \<and> m \<in> set (async_methods pol) \<longrightarrow>
        classify pol m = KeptSync \<and> visit_FunctionDef pol f = Some (FunctionDef f))"
  by (auto simp: visit_FunctionDef.simps classify_def base_visit_FunctionDef_def
      x_keep_sync_def)

theorem keep_sync_wins_witness:
  "''search'' \<notin> set (exclude_methods
      \<lparr>keep_sync = [''search''], exclude_methods = [], async_methods = [''search'', ''upsert'']\<rparr>)
   \<and> ''search'' \<in> set (keep_sync
      \<lparr>keep_sync = [''search''], exclude_methods = [], async_methods = [''search'', ''upsert'']\<rparr>)
   \<and> ''search'' \<in> set (async_methods
      \<lparr>keep_sync = [''search''], exclude_methods = [], async_methods = [''search'', ''upsert'']\<rparr>)
   \<and> visit_FunctionDef
        \<lparr>keep_sync = [''search''], exclude_methods = [], async_methods = [''search'', ''upsert'']\<rparr>
        (FuncDef ''search'' (Arguments [] [Arg ''self'' None] None [] [] None [])
           [Return (Some (Call (Attribute (Name ''self'') ''upsert'') [] []))] [] None)
       = Some (FunctionDef
           (FuncDef ''search'' (Arguments [] [Arg ''self'' None] None [] [] None [])
              [Return (Some (Call (Attribute (Name ''self'') ''upsert'') [] []))] [] None))"
  using keep_sync_wins [of "''search''"
      "\<lparr>keep_sync = [''search''], exclude_methods = [], async_methods = [''search'', ''upsert'']\<rparr>"
      "FuncDef ''search'' (Arguments [] [Arg ''self'' None] None [] [] None [])
         [Return (Some (Call (Attribute (Name ''self'') ''upsert'') [] []))] [] None"]
  by simp

text \<open>
  C2, as amended. For a class body none of whose members is an \<^verbatim>\<open>async def\<close>, the visit
  of the class visits the members one by one and in order: the names of the methods of
  the output are the names of the methods of the input, in the same order, without the
  names in \<^verbatim>\<open>exclude_methods\<close>, and no method of the output has an excluded name. For
  every class body, an excluded \<^verbatim>\<open>def\<close> is dropped whatever its name, and a constructor or
  shutdown \<^verbatim>\<open>def\<close> that is not excluded is replaced, in its place, by the result of its
  override; an \<^verbatim>\<open>async def\<close> member is not classified: it stays, under its name, with the
  statements of its body visited.
\<close>

theorem class_method_sequence:
  "(list_all (\<lambda>s. \<not> is_AsyncFunctionDef s) b \<longrightarrow>
      List.map_filter method_name (visit_list pol b)
        = filter (\<lambda>m. m \<notin> set (exclude_methods pol)) (List.map_filter method_name b)
    \<and> (\<forall>m \<in> set (List.map_filter method_name (visit_list pol b)).
          m \<notin> set (exclude_methods pol)))
   \<and> generic_visit pol (ClassDef n bases ks b d) = ClassDef n bases ks (visit_list pol b) d
   \<and> visit_list pol b = List.map_filter (visit pol) b
   \<and> (name f \<in> set (exclude_methods pol) \<longrightarrow> visit pol (FunctionDef f) = None)
   \<and> (name f \<notin> set (exclude_methods pol) \<and> name f = ''__init__'' \<longrightarrow>
        visit pol (FunctionDef f) = Some (generic_visit pol (FunctionDef (override_init f))))
   \<and> (name f \<notin> set (exclude_methods pol) \<and> name f = ''close'' \<longrightarrow>
        visit pol (FunctionDef f) = Some override_close)
   \<and> visit pol (AsyncFunctionDef g)
       = Some (AsyncFunctionDef
           (FuncDef (name g) (fargs g) (visit_list pol (body g)) (decorator_list g)
              (returns g)))"
proof (intro impI conjI)
  assume h: "list_all (\<lambda>s. \<not> is_AsyncFunctionDef s) b"
  show names: "List.map_filter method_name (visit_list pol b)
       = filter (\<lambda>m. m \<notin> set (exclude_methods pol)) (List.map_filter method_name b)"
    using h by (rule method_names_visit_list)
  show "\<forall>m \<in> set (List.map_filter method_name (visit_list pol b)).
         m \<notin> set (exclude_methods pol)"
    unfolding names by simp
next
  show "generic_visit pol (ClassDef n bases ks b d) = ClassDef n bases ks (visit_list pol b) d"
    by simp
next
  show "visit_list pol b = List.map_filter (visit pol) b"
    by (rule visit_list_map_filter)
next
  assume "name f \<in> set (exclude_methods pol)"
  then show "visit pol (FunctionDef f) = None"
    by (simp add: visit_FunctionDef.simps)
next
  assume "name f \<notin> set (exclude_methods pol) \<and> name f = ''__init__''"
  then show "visit pol (FunctionDef f)
      = Some (generic_visit pol (FunctionDef (override_init f)))"
    by (auto simp: visit_FunctionDef.simps)
next
  assume "name f \<notin> set (exclude_methods pol) \<and> name f = ''close''"
  then show "visit pol (FunctionDef f) = Some override_close"
    by (auto simp: visit_FunctionDef.simps)
next
  show "visit pol (AsyncFunctionDef g)
       = Some (AsyncFunctionDef
           (FuncDef (name g) (fargs g) (visit_list pol (body g)) (decorator_list g)
              (returns g)))"
    by simp
qed

theorem class_method_sequence_witness:
  "list_all (\<lambda>s. \<not> is_AsyncFunctionDef s)
     [FunctionDef (FuncDef ''__init__'' (Arguments [] [Arg ''self'' None] None [] [] None [])
        [Assign [Attribute (Name ''self'') ''_aio_grpc_channel''] (Constant CNone)] [] None),
      FunctionDef (FuncDef ''search'' (Arguments [] [Arg ''self'' None] None [] [] None [])
        [Pass] [] None),
      FunctionDef (FuncDef ''upsert'' (Arguments [] [Arg ''self'' None] None [] [] None [])
        [Pass] [] None),
      FunctionDef (FuncDef ''delete_all'' (Arguments [] [Arg ''self'' None] None [] [] None [])
        [Pass] [] None),
      FunctionDef (FuncDef ''close'' (Arguments [] [Arg ''self'' None] None [] [] None [])
        [Pass] [] None)]
   \<and> List.map_filter method_name
        (visit_list
           \<lparr>keep_sync = [''search''], exclude_methods = [''delete_all''],
            async_methods = [''search'', ''upsert'', ''query'']\<rparr>
           [FunctionDef (FuncDef ''__init__'' (Arguments [] [Arg ''self'' None] None [] [] None [])
              [Assign [Attribute (Name ''self'') ''_aio_grpc_channel''] (Constant CNone)] [] None),
            FunctionDef (FuncDef ''search'' (Arguments [] [Arg ''self'' None] None [] [] None [])
              [Pass] [] None),
            FunctionDef (FuncDef ''upsert'' (Arguments [] [Arg ''self'' None] None [] [] None [])
              [Pass] [] None),
            FunctionDef (FuncDef ''delete_all'' (Arguments [] [Arg ''self'' None] None [] [] None [])
              [Pass] [] None),
            FunctionDef (FuncDef ''close'' (Arguments [] [Arg ''self'' None] None [] [] None [])
              [Pass] [] None)])
       = [''__init__'', ''search'', ''upsert'', ''close'']"
  (is "list_all ?ok ?cls \<and> List.map_filter method_name (visit_list ?pol ?cls) = ?names")
proof -
  have h: "list_all ?ok ?cls"
    by simp
  have kept: "filter (\<lambda>m. m \<notin> set (exclude_methods ?pol)) (List.map_filter method_name ?cls)
      = ?names"
    by (simp add: List.map_filter_simps)
  have "List.map_filter method_name (visit_list ?pol ?cls)
      = filter (\<lambda>m. m \<notin> set (exclude_methods ?pol)) (List.map_filter method_name ?cls)"
    using class_method_sequence [of ?cls ?pol] h by blast
  from this kept have "List.map_filter method_name (visit_list ?pol ?cls) = ?names"
    by (rule trans)
  with h show ?thesis
    by (rule conjI)
qed

text \<open>
  C2 as stated fails: a class whose only member is \<^verbatim>\<open>async def delete_all\<close>, visited with
  \<^verbatim>\<open>delete_all\<close> in \<^verbatim>\<open>exclude_methods\<close>, keeps that method.
\<close>

theorem excluded_async_def_counterexample:
  "''delete_all'' \<in> set (exclude_methods
      \<lparr>keep_sync = [], exclude_methods = [''delete_all''], async_methods = []\<rparr>)
   \<and> visit_list \<lparr>keep_sync = [], exclude_methods = [''delete_all''], async_methods = []\<rparr>
        [AsyncFunctionDef
           (FuncDef ''delete_all'' (Arguments [] [Arg ''self'' None] None [] [] None [])
              [Pass] [] None)]
       = [AsyncFunctionDef
            (FuncDef ''delete_all'' (Arguments [] [Arg ''self'' None] None [] [] None [])
               [Pass] [] None)]
   \<and> List.map_filter method_name
        (visit_list \<lparr>keep_sync = [], exclude_methods = [''delete_all''], async_methods = []\<rparr>
           [AsyncFunctionDef
              (FuncDef ''delete_all'' (Arguments [] [Arg ''self'' None] None [] [] None [])
                 [Pass] [] None)])
       = [''delete_all'']"
  by (simp add: List.map_filter_simps)

text \<open>
  C3, as amended. Whatever the body of the input \<^verbatim>\<open>close\<close> method, its visit returns the
  fixed shutdown method. When that method runs on a client whose channel field and HTTP
  field are each unset, \<^verbatim>\<open>None\<close> or a resource handle, and the channel close returns or
  raises an error of kind \<^verbatim>\<open>AttributeError\<close> or \<^verbatim>\<open>RuntimeError\<close>, and the HTTP close
  returns or raises an error of kind \<^verbatim>\<open>Exception\<close>, and \<^verbatim>\<open>show_warning\<close> returns on the
  two messages of the method, then no exception escapes and the run ends after the
  channel step, the HTTP step and the closed flag, in this order; the closed flag is
  true at the end. This covers the run in which every close raises. When the channel
  close raises an error of any other kind, that error escapes right after the attempt:
  the HTTP close is not attempted and the closed flag is not set.
\<close>

theorem shutdown_override:
  "(name f = ''close'' \<and> ''close'' \<notin> set (exclude_methods pol) \<longrightarrow>
      visit_FunctionDef pol f = Some override_close)
   \<and> (resource_field (attrs st ''_grpc_channel'') \<and> resource_field (attrs st ''http'')
       \<and> (\<forall>r. caught_by [''AttributeError'', ''RuntimeError''] (aw r ''close''))
       \<and> (\<forall>r. caught_by [''Exception''] (aw r ''aclose''))
       \<and> sh grpc_warning = None \<and> sh http_warning = None \<longrightarrow>
         run_close aw sh g st = Ok () (closed_step (http_step aw (channel_step aw st)))
       \<and> attrs (closed_step (http_step aw (channel_step aw st))) ''_closed''
           = Some (VBool True))
   \<and> (attrs st ''_grpc_channel'' = Some (VRes c) \<and> aw c ''close'' = Some ex
       \<and> ''AttributeError'' \<notin> set ex \<and> ''RuntimeError'' \<notin> set ex \<longrightarrow>
         run_close aw sh g st = Raised ex (attempt c ''close'' st)
       \<and> attrs (attempt c ''close'' st) ''_closed'' = attrs st ''_closed''
       \<and> invoked (attempt c ''close'' st) = invoked st @ [(c, ''close'')])"
proof (intro conjI)
  show "name f = ''close'' \<and> ''close'' \<notin> set (exclude_methods pol) \<longrightarrow>
      visit_FunctionDef pol f = Some override_close"
    by (auto simp: visit_FunctionDef.simps)
next
  show "resource_field (attrs st ''_grpc_channel'') \<and> resource_field (attrs st ''http'')
       \<and> (\<forall>r. caught_by [''AttributeError'', ''RuntimeError''] (aw r ''close''))
       \<and> (\<forall>r. caught_by [''Exception''] (aw r ''aclose''))
       \<and> sh grpc_warning = None \<and> sh http_warning = None \<longrightarrow>
         run_close aw sh g st = Ok () (closed_step (http_step aw (channel_step aw st)))
       \<and> attrs (closed_step (http_step aw (channel_step aw st))) ''_closed''
           = Some (VBool True)"
  proof (intro impI, elim conjE, intro conjI)
    assume rc: "resource_field (attrs st ''_grpc_channel'')"
      and rh: "resource_field (attrs st ''http'')"
      and cc: "\<forall>r. caught_by [''AttributeError'', ''RuntimeError''] (aw r ''close'')"
      and ch: "\<forall>r. caught_by [''Exception''] (aw r ''aclose'')"
      and sg: "sh grpc_warning = None" and sw: "sh http_warning = None"
    have rh': "resource_field (attrs (channel_step aw st) ''http'')"
      using rh by (simp add: attrs_channel_step)
    have e1: "exec (close_env aw sh g) st close_channel_stmt = Ok () (channel_step aw st)"
      using rc cc sg by (rule exec_close_channel)
    have e2: "exec (close_env aw sh g) (channel_step aw st) close_http_stmt
        = Ok () (http_step aw (channel_step aw st))"
      using rh' ch sw by (rule exec_close_http)
    show "run_close aw sh g st = Ok () (closed_step (http_step aw (channel_step aw st)))"
      by (simp add: run_close_def override_close_def close_body_def e1 e2 exec_set_closed)
    show "attrs (closed_step (http_step aw (channel_step aw st))) ''_closed''
        = Some (VBool True)"
      by (simp add: closed_step_def)
  qed
next
  show "attrs st ''_grpc_channel'' = Some (VRes c) \<and> aw c ''close'' = Some ex
       \<and> ''AttributeError'' \<notin> set ex \<and> ''RuntimeError'' \<notin> set ex \<longrightarrow>
         run_close aw sh g st = Raised ex (attempt c ''close'' st)
       \<and> attrs (attempt c ''close'' st) ''_closed'' = attrs st ''_closed''
       \<and> invoked (attempt c ''close'' st) = invoked st @ [(c, ''close'')]"
  proof (intro impI, elim conjE, intro conjI)
    assume a: "attrs st ''_grpc_channel'' = Some (VRes c)" and b: "aw c ''close'' = Some ex"
      and n1: "''AttributeError'' \<notin> set ex" and n2: "''RuntimeError'' \<notin> set ex"
    have e: "exec (close_env aw sh g) st close_channel_stmt
        = Raised ex (attempt c ''close'' st)"
      using a b n1 n2 by (rule exec_close_channel_escape)
    show "run_close aw sh g st = Raised ex (attempt c ''close'' st)"
      by (simp add: run_close_def override_close_def close_body_def e)
    show "attrs (attempt c ''close'' st) ''_closed'' = attrs st ''_closed''"
      by (simp add: attempt_def)
    show "invoked (attempt c ''close'' st) = invoked st @ [(c, ''close'')]"
      by (simp add: attempt_def)
  qed
qed

theorem shutdown_override_witness:
  "resource_field (attrs \<lparr>attrs = [''_grpc_channel'' \<mapsto> VRes ''channel'', ''http'' \<mapsto> VRes ''http''],
        warnings = [], invoked = []\<rparr> ''_grpc_channel'')
   \<and> resource_field (attrs \<lparr>attrs = [''_grpc_channel'' \<mapsto> VRes ''channel'', ''http'' \<mapsto> VRes ''http''],
        warnings = [], invoked = []\<rparr> ''http'')
   \<and> (\<forall>r. caught_by [''AttributeError'', ''RuntimeError'']
          (Some [''RuntimeError'', ''Exception'', ''BaseException'']))
   \<and> (\<forall>r. caught_by [''Exception''] (Some [''RuntimeError'', ''Exception'', ''BaseException'']))
   \<and> run_close (\<lambda>r m. Some [''RuntimeError'', ''Exception'', ''BaseException''])
        (\<lambda>m. None) VNone
        \<lparr>attrs = [''_grpc_channel'' \<mapsto> VRes ''channel'', ''http'' \<mapsto> VRes ''http''],
         warnings = [], invoked = []\<rparr>
       = Ok ()
          \<lparr>attrs = [''_grpc_channel'' \<mapsto> VRes ''channel'', ''http'' \<mapsto> VRes ''http'',
                    ''_closed'' \<mapsto> VBool True],
           warnings = [http_warning],
           invoked = [(''channel'', ''close''), (''http'', ''aclose'')]\<rparr>"
  using shutdown_override [of
      "FuncDef ''close'' (Arguments [] [Arg ''self'' None] None [] [] None []) [] [] None"
      "\<lparr>keep_sync = [], exclude_methods = [], async_methods = []\<rparr>"
      "\<lparr>attrs = [''_grpc_channel'' \<mapsto> VRes ''channel'', ''http'' \<mapsto> VRes ''http''],
         warnings = [], invoked = []\<rparr>"
      "\<lambda>r m. Some [''RuntimeError'', ''Exception'', ''BaseException'']"
      "\<lambda>m. None" VNone "''channel''" "[''RuntimeError'', ''Exception'', ''BaseException'']"]
  by (simp add: closed_step_def http_step_def channel_step_def attempt_def warn_def)

text \<open>
  C3 as stated fails: when the channel close raises an error of another kind (here a
  \<^verbatim>\<open>ConnectionError\<close>), the exception escapes from the generated method, the HTTP close
  is not attempted and the closed flag is not set, also when \<^verbatim>\<open>show_warning\<close> never
  raises.
\<close>

theorem shutdown_escape_counterexample:
  "run_close (\<lambda>r m. Some [''ConnectionError'', ''OSError'', ''Exception'', ''BaseException''])
        (\<lambda>m. None) VNone
        \<lparr>attrs = [''_grpc_channel'' \<mapsto> VRes ''channel'', ''http'' \<mapsto> VRes ''http''],
         warnings = [], invoked = []\<rparr>
       = Raised [''ConnectionError'', ''OSError'', ''Exception'', ''BaseException'']
          \<lparr>attrs = [''_grpc_channel'' \<mapsto> VRes ''channel'', ''http'' \<mapsto> VRes ''http''],
           warnings = [], invoked = [(''channel'', ''close'')]\<rparr>"
  by (simp add: run_close_def override_close_def close_body_def close_ast_defs)

text \<open>
  C4. The construction override removes from the constructor body exactly the plain and
  annotated assignments with a marked attribute target and keeps every other statement,
  unchanged and in its order; of one marked and one ordinary attribute assignment, in
  either order, only the ordinary one is left.
\<close>

theorem construction_strip:
  "override_init_body b = filter (\<lambda>s. \<not> marked_assignment s) b
   \<and> override_init f =
       FuncDef (name f) (fargs f) (filter (\<lambda>s. \<not> marked_assignment s) (body f))
         (decorator_list f) (returns f)
   \<and> (str_contains ''aio'' a1 \<and> \<not> str_contains ''aio'' a2 \<longrightarrow>
        override_init_body [Assign [Attribute x1 a1] v1, Assign [Attribute x2 a2] v2]
          = [Assign [Attribute x2 a2] v2]
      \<and> override_init_body [Assign [Attribute x2 a2] v2, Assign [Attribute x1 a1] v1]
          = [Assign [Attribute x2 a2] v2]
      \<and> override_init_body [AnnAssign (Attribute x1 a1) ann (Some v1) 0, Assign [Attribute x2 a2] v2]
          = [Assign [Attribute x2 a2] v2])"
  by (simp add: override_init_body_filter override_init_def)

theorem construction_strip_witness:
  "str_contains ''aio'' ''_aio_grpc_channel'' \<and> \<not> str_contains ''aio'' ''_grpc_channel''
   \<and> override_init_body
        [Assign [Attribute (Name ''self'') ''_aio_grpc_channel''] (Constant CNone),
         Assign [Attribute (Name ''self'') ''_grpc_channel''] (Constant CNone)]
       = [Assign [Attribute (Name ''self'') ''_grpc_channel''] (Constant CNone)]"
  using construction_strip [of "[]" "FuncDef [] (Arguments [] [] None [] [] None []) [] [] None"
      "''_aio_grpc_channel''" "''_grpc_channel''"
      "Name ''self''" "Constant CNone" "Name ''self''" "Constant CNone"]
  by simp

text \<open>
  C5, as amended. A constructor body with an assignment whose target is not an attribute
  reference does not stop the run: the visit of a constructor that is not excluded
  always returns a method definition, and the construction override keeps, in its place,
  every plain assignment none of whose targets is an attribute reference and every
  annotated assignment whose target is not one.
\<close>

theorem unmatched_target_kept:
  "name f = ''__init__'' \<and> ''__init__'' \<notin> set (exclude_methods pol) \<longrightarrow>
     visit_FunctionDef pol f =
       Some (FunctionDef
         (FuncDef ''__init__'' (fargs f) (visit_list pol (override_init_body (body f)))
            (decorator_list f) (returns f)))
   \<and> (\<not> list_ex is_Attribute targets \<longrightarrow>
        override_init_body (pre @ [Assign targets v] @ post)
          = override_init_body pre @ [Assign targets v] @ override_init_body post)
   \<and> (\<not> is_Attribute t \<longrightarrow>
        override_init_body (pre @ [AnnAssign t ann w simple] @ post)
          = override_init_body pre @ [AnnAssign t ann w simple] @ override_init_body post)"
proof (intro impI conjI)
  assume "name f = ''__init__'' \<and> ''__init__'' \<notin> set (exclude_methods pol)"
  then show "visit_FunctionDef pol f =
       Some (FunctionDef
         (FuncDef ''__init__'' (fargs f) (visit_list pol (override_init_body (body f)))
            (decorator_list f) (returns f)))"
    by (simp add: visit_FunctionDef.simps override_init_def)
next
  assume "\<not> list_ex is_Attribute targets"
  then have "\<not> marked_assignment (Assign targets v)"
    by (simp add: marked_not_Attribute)
  then show "override_init_body (pre @ [Assign targets v] @ post)
          = override_init_body pre @ [Assign targets v] @ override_init_body post"
    by (simp add: override_init_body_filter)
next
  assume "\<not> is_Attribute t"
  then have "\<not> marked_assignment (AnnAssign t ann w simple)"
    by (cases t) auto
  then show "override_init_body (pre @ [AnnAssign t ann w simple] @ post)
          = override_init_body pre @ [AnnAssign t ann w simple] @ override_init_body post"
    by (simp add: override_init_body_filter)
qed

theorem unmatched_target_kept_witness:
  "''__init__'' \<notin> set (exclude_methods \<lparr>keep_sync = [], exclude_methods = [], async_methods = []\<rparr>)
   \<and> \<not> list_ex is_Attribute [Name ''x'', Subscript (Name ''cache'') (Constant (CInt 0))]
   \<and> override_init_body
        ([Assign [Attribute (Name ''self'') ''_aio_grpc_channel''] (Constant CNone)]
         @ [Assign [Name ''x'', Subscript (Name ''cache'') (Constant (CInt 0))] (Constant (CInt 1))]
         @ [])
       = [Assign [Name ''x'', Subscript (Name ''cache'') (Constant (CInt 0))] (Constant (CInt 1))]"
  using unmatched_target_kept [of
      "FuncDef ''__init__'' (Arguments [] [Arg ''self'' None] None [] [] None []) [] [] None"
      "\<lparr>keep_sync = [], exclude_methods = [], async_methods = []\<rparr>"
      "[Name ''x'', Subscript (Name ''cache'') (Constant (CInt 0))]"
      "[Assign [Attribute (Name ''self'') ''_aio_grpc_channel''] (Constant CNone)]"
      "Constant (CInt 1)" "[]"]
  by (simp add: override_init_body_filter)

text \<open>
  C5 as stated fails: a constructor whose body is the assignment \<^verbatim>\<open>x = 1\<close>, whose target
  is a name and not an attribute reference, is visited without an error and comes out
  as it went in.
\<close>

theorem unmatched_target_counterexample:
  "\<not> list_ex is_Attribute [Name ''x'']
   \<and> visit_FunctionDef \<lparr>keep_sync = [], exclude_methods = [], async_methods = []\<rparr>
        (FuncDef ''__init__'' (Arguments [] [Arg ''self'' None] None [] [] None [])
           [Assign [Name ''x''] (Constant (CInt 1))] [] None)
       = Some (FunctionDef
           (FuncDef ''__init__'' (Arguments [] [Arg ''self'' None] None [] [] None [])
              [Assign [Name ''x''] (Constant (CInt 1))] [] None))"
  by (simp add: visit_FunctionDef.simps override_init_def override_init_body_filter)

text \<open>
  C6. The generic conversion applied twice gives what it gives applied once: a method
  with a suspending signature is returned as it is. For a method classified
  \<open>Converted\<close> the visit is the generic conversion.
\<close>

theorem conversion_idempotent:
  "generic_conversion pol (generic_conversion pol s) = generic_conversion pol s
   \<and> generic_conversion pol (AsyncFunctionDef g) = AsyncFunctionDef g
   \<and> (classify pol (name f) = Converted \<longrightarrow>
        visit_FunctionDef pol f = Some (generic_conversion pol (FunctionDef f))
      \<and> generic_conversion pol (generic_conversion pol (FunctionDef f))
          = generic_conversion pol (FunctionDef f))"
proof (intro conjI impI)
  show "generic_conversion pol (generic_conversion pol s) = generic_conversion pol s"
    by (cases s) simp_all
  show "generic_conversion pol (AsyncFunctionDef g) = AsyncFunctionDef g"
    by simp
  show "visit_FunctionDef pol f = Some (generic_conversion pol (FunctionDef f))"
    if "classify pol (name f) = Converted"
    using that by (simp add: visit_FunctionDef_classify del: generic_conversion.simps)
  show "generic_conversion pol (generic_conversion pol (FunctionDef f))
          = generic_conversion pol (FunctionDef f)"
    by simp
qed

theorem conversion_idempotent_witness:
  "classify \<lparr>keep_sync = [''search''], exclude_methods = [], async_methods = [''search'', ''upsert'']\<rparr>
      (name (FuncDef ''upsert'' (Arguments [] [Arg ''self'' None] None [] [] None [])
         [Expr (Call (Attribute (Name ''self'') ''search'') [] [])] [] None)) = Converted
   \<and> generic_conversion
        \<lparr>keep_sync = [''search''], exclude_methods = [], async_methods = [''search'', ''upsert'']\<rparr>
        (generic_conversion
          \<lparr>keep_sync = [''search''], exclude_methods = [], async_methods = [''search'', ''upsert'']\<rparr>
          (FunctionDef (FuncDef ''upsert'' (Arguments [] [Arg ''self'' None] None [] [] None [])
             [Expr (Call (Attribute (Name ''self'') ''search'') [] [])] [] None)))
       = AsyncFunctionDef (FuncDef ''upsert'' (Arguments [] [Arg ''self'' None] None [] [] None [])
           [Expr (Await (Call (Attribute (Name ''self'') ''search'') [] []))] [] None)"
  using conversion_idempotent [of
      "\<lparr>keep_sync = [''search''], exclude_methods = [], async_methods = [''search'', ''upsert'']\<rparr>"
      "FunctionDef (FuncDef ''upsert'' (Arguments [] [Arg ''self'' None] None [] [] None [])
         [Expr (Call (Attribute (Name ''self'') ''search'') [] [])] [] None)"
      "FuncDef ''upsert'' (Arguments [] [Arg ''self'' None] None [] [] None []) [] [] None"
      "FuncDef ''upsert'' (Arguments [] [Arg ''self'' None] None [] [] None [])
         [Expr (Call (Attribute (Name ''self'') ''search'') [] [])] [] None"]
  by (simp add: classify_def is_async_call_def)

text \<open>
  C7. The rule that the visit of a method applies is the rule of its classification,
  and the classification is a function of the method's name and of the policy alone:
  two methods of the same name get the same classification, two policies whose three
  lists hold the same names give the same classification, and in a class body the
  result for a method does not depend on the members before or after it.
\<close>

theorem classification_deterministic:
  "visit_FunctionDef pol f = apply_rule pol (classify pol (name f)) f
   \<and> (name f = name g \<longrightarrow> classify pol (name f) = classify pol (name g))
   \<and> (set (keep_sync pol) = set (keep_sync pol')
        \<and> set (exclude_methods pol) = set (exclude_methods pol')
        \<and> set (async_methods pol) = set (async_methods pol') \<longrightarrow>
          classify pol m = classify pol' m)
   \<and> visit_list pol (xs @ FunctionDef f # ys)
       = visit_list pol xs
         @ (case apply_rule pol (classify pol (name f)) f of None \<Rightarrow> [] | Some s \<Rightarrow> [s])
         @ visit_list pol ys"
proof (intro conjI impI)
  show "visit_FunctionDef pol f = apply_rule pol (classify pol (name f)) f"
    by (rule visit_FunctionDef_classify)
  show "classify pol (name f) = classify pol (name g)" if "name f = name g"
    using that by simp
  show "classify pol m = classify pol' m"
    if "set (keep_sync pol) = set (keep_sync pol')
        \<and> set (exclude_methods pol) = set (exclude_methods pol')
        \<and> set (async_methods pol) = set (async_methods pol')"
    using that by (simp add: classify_def)
  show "visit_list pol (xs @ FunctionDef f # ys)
       = visit_list pol xs
         @ (case apply_rule pol (classify pol (name f)) f of None \<Rightarrow> [] | Some s \<Rightarrow> [s])
         @ visit_list pol ys"
    by (simp add: visit_list_append visit_FunctionDef_classify split: option.splits)
qed

theorem classification_deterministic_witness:
  "set (keep_sync \<lparr>keep_sync = [''a'', ''b''], exclude_methods = [], async_methods = [''b'']\<rparr>)
     = set (keep_sync \<lparr>keep_sync = [''b'', ''a'', ''b''], exclude_methods = [],
                       async_methods = [''b'', ''b'']\<rparr>)
   \<and> classify \<lparr>keep_sync = [''a'', ''b''], exclude_methods = [], async_methods = [''b'']\<rparr> ''b''
     = classify \<lparr>keep_sync = [''b'', ''a'', ''b''], exclude_methods = [],
                  async_methods = [''b'', ''b'']\<rparr> ''b''"
  using classification_deterministic [of
      "\<lparr>keep_sync = [''a'', ''b''], exclude_methods = [], async_methods = [''b'']\<rparr>"
      "FuncDef ''b'' (Arguments [] [] None [] [] None []) [] [] None"
      "FuncDef ''b'' (Arguments [] [] None [] [] None []) [Pass] [] None"
      "\<lparr>keep_sync = [''b'', ''a'', ''b''], exclude_methods = [], async_methods = [''b'', ''b'']\<rparr>"
      "''b''" "[]" "[]"]
  by (simp add: insert_commute)

text \<open>
  C8. The construction override looks at the direct children of the constructor body
  only: what it returns is a subsequence of the body, and a statement with a block (an
  \<^verbatim>\<open>if\<close>, \<^verbatim>\<open>while\<close> or \<^verbatim>\<open>try\<close> statement, a nested function or class) stays in its place
  with everything inside it, also with a marked attribute assignment inside it.
\<close>

theorem nested_untouched:
  "subseq (override_init_body b) b
   \<and> override_init_body (pre @ [If_stmt c inner orelse] @ post)
       = override_init_body pre @ [If_stmt c inner orelse] @ override_init_body post
   \<and> override_init_body (pre @ [While_stmt c inner orelse] @ post)
       = override_init_body pre @ [While_stmt c inner orelse] @ override_init_body post
   \<and> override_init_body (pre @ [Try inner hs orelse finalbody] @ post)
       = override_init_body pre @ [Try inner hs orelse finalbody] @ override_init_body post
   \<and> override_init_body (pre @ [FunctionDef g] @ post)
       = override_init_body pre @ [FunctionDef g] @ override_init_body post
   \<and> override_init_body (pre @ [AsyncFunctionDef g] @ post)
       = override_init_body pre @ [AsyncFunctionDef g] @ override_init_body post
   \<and> override_init_body (pre @ [ClassDef n bases ks inner d] @ post)
       = override_init_body pre @ [ClassDef n bases ks inner d] @ override_init_body post
   \<and> override_init_body
        [Try [Assign [Attribute (Name ''self'') ''_aio_grpc_channel''] v] hs [] []]
       = [Try [Assign [Attribute (Name ''self'') ''_aio_grpc_channel''] v] hs [] []]
   \<and> override_init_body
        [If_stmt c [AnnAssign (Attribute (Name ''self'') ''_aio_grpc_channel'') ann w simple] []]
       = [If_stmt c [AnnAssign (Attribute (Name ''self'') ''_aio_grpc_channel'') ann w simple] []]"
  by (simp add: override_init_body_filter)

text \<open>
  C9. A plain assignment one of whose targets is a marked attribute reference is removed
  as a whole, with its other targets.
\<close>

theorem multi_target_removed:
  "Attribute x a \<in> set targets \<and> str_contains ''aio'' a \<longrightarrow>
     override_init_body (pre @ [Assign targets v] @ post)
       = override_init_body pre @ override_init_body post
   \<and> Assign targets v \<notin> set (override_init_body b)"
proof (intro impI)
  assume h: "Attribute x a \<in> set targets \<and> str_contains ''aio'' a"
  then have "marked_attr (Attribute x a)" by simp
  with h have "list_ex marked_attr targets"
    unfolding list_ex_iff by blast
  then have m: "marked_assignment (Assign targets v)" by simp
  then show "override_init_body (pre @ [Assign targets v] @ post)
       = override_init_body pre @ override_init_body post
   \<and> Assign targets v \<notin> set (override_init_body b)"
    by (auto simp: override_init_body_filter)
qed

theorem multi_target_removed_witness:
  "Attribute (Name ''self'') ''_aio_grpc_channel''
     \<in> set [Name ''chan'', Attribute (Name ''self'') ''_aio_grpc_channel'',
             Attribute (Name ''self'') ''_grpc_channel'']
   \<and> str_contains ''aio'' ''_aio_grpc_channel''
   \<and> override_init_body
        [Assign [Name ''chan'', Attribute (Name ''self'') ''_aio_grpc_channel'',
                 Attribute (Name ''self'') ''_grpc_channel''] (Constant CNone),
         Assign [Attribute (Name ''self'') ''_grpc_channel''] (Constant CNone)]
       = [Assign [Attribute (Name ''self'') ''_grpc_channel''] (Constant CNone)]"
  using multi_target_removed [of "Name ''self''" "''_aio_grpc_channel''"
      "[Name ''chan'', Attribute (Name ''self'') ''_aio_grpc_channel'',
        Attribute (Name ''self'') ''_grpc_channel'']"
      "[]" "Constant CNone"
      "[Assign [Attribute (Name ''self'') ''_grpc_channel''] (Constant CNone)]" "[]"]
  by (simp add: override_init_body_filter)

text \<open>
  C10. The marker test is substring containment: an assignment (plain with one target,
  or annotated) to an attribute is removed exactly when \<^verbatim>\<open>aio\<close> occurs somewhere in the
  attribute name, so the assignment to \<^verbatim>\<open>self._kaioken_level\<close> is removed.
\<close>

theorem marker_is_substring:
  "str_contains ''aio'' a = (\<exists>ps ss. a = ps @ ''aio'' @ ss)
   \<and> override_init_body (pre @ [Assign [Attribute x a] v] @ post)
       = override_init_body pre
         @ (if \<exists>ps ss. a = ps @ ''aio'' @ ss then [] else [Assign [Attribute x a] v])
         @ override_init_body post
   \<and> override_init_body (pre @ [AnnAssign (Attribute x a) ann w simple] @ post)
       = override_init_body pre
         @ (if \<exists>ps ss. a = ps @ ''aio'' @ ss then []
            else [AnnAssign (Attribute x a) ann w simple])
         @ override_init_body post
   \<and> override_init_body [Assign [Attribute (Name ''self'') ''_kaioken_level''] v] = []"
proof -
  have c: "str_contains ''aio'' a = (\<exists>ps ss. a = ps @ ''aio'' @ ss)"
    by (simp add: str_contains_iff sublist_def)
  have k: "str_contains ''aio'' ''_kaioken_level''" by simp
  show ?thesis
    unfolding c [symmetric]
    by (simp add: override_init_body_filter k del: str_contains.simps)
qed

end
